theory Spec2Isabelle
  imports Main "HOL-Library.AList"
begin


section \<open>JavaScript values\<close>

text \<open>
  The webhook handlers of \<^verbatim>\<open>cloudscript.js\<close> work on untyped JSON objects: the
  event \<^verbatim>\<open>args\<close> and the room record \<^verbatim>\<open>data\<close> read back from the shared
  group store. Values are modelled dynamically. Numbers are integers (actor numbers,
  counts); an object is an association list in insertion order that denotes the map
  \<open>map_of\<close> of it; prototype properties are not modelled.
\<close>

datatype jsval =
    Undefined
  | Null
  | JBool bool
  | JNum int
  | JStr string
  | JArr "jsval list"
  | JObj "(string \<times> jsval) list"

text \<open>
  What a handler can throw. \<open>PhotonException code msg\<close> is the script's own typed
  error; \<open>JsError name message\<close> is a built-in error object (\<^verbatim>\<open>e.name\<close>,
  \<^verbatim>\<open>e.message\<close>), whose message is worded by the engine and here in one fixed way;
  \<open>ApiError code\<close> is the object the PlayFab server API throws, whose
  \<^verbatim>\<open>e.Error.error\<close> is \<open>code\<close> and which has neither name nor message.
\<close>

datatype exn =
    PhotonException int string
  | JsError string string
  | ApiError string

definition TypeError :: "string \<Rightarrow> exn" where
  "TypeError what = JsError ''TypeError'' what"

subsection \<open>Number to string\<close>

definition digit :: "nat \<Rightarrow> char" where
  "digit d = char_of (48 + d)"

function show_nat :: "nat \<Rightarrow> string" where
  "show_nat n = (if n < 10 then [digit n] else show_nat (n div 10) @ [digit (n mod 10)])"
  by pat_completeness auto
termination
  by (relation "measure id") auto

declare show_nat.simps [simp del]

definition show_int :: "int \<Rightarrow> string" where
  "show_int i = (if i < 0 then CHR ''-'' # show_nat (nat (- i)) else show_nat (nat i))"

fun join_with :: "string \<Rightarrow> string list \<Rightarrow> string" where
  "join_with sep [] = []"
| "join_with sep [x] = x"
| "join_with sep (x # y # ys) = x @ sep @ join_with sep (y # ys)"

text \<open>\<^verbatim>\<open>String(v)\<close>, which is also how a value becomes a property key.\<close>

fun to_string :: "jsval \<Rightarrow> string" where
  "to_string Undefined = ''undefined''"
| "to_string Null = ''null''"
| "to_string (JBool b) = (if b then ''true'' else ''false'')"
| "to_string (JNum i) = show_int i"
| "to_string (JStr s) = s"
| "to_string (JArr xs) =
     join_with '','' (map (\<lambda>x. if x = Undefined \<or> x = Null then [] else to_string x) xs)"
| "to_string (JObj kvs) = ''[object Object]''"

subsection \<open>Operators\<close>

text \<open>
  \<^verbatim>\<open>a === b\<close>. Objects and arrays compare by reference; the two operands of every
  comparison in the script come from different sources (the event, the store, a
  literal), so two objects are never the same reference.
\<close>

fun strict_eq :: "jsval \<Rightarrow> jsval \<Rightarrow> bool" where
  "strict_eq (JObj _) _ = False"
| "strict_eq (JArr _) _ = False"
| "strict_eq a b = (a = b)"

definition undefinedOrNull :: "jsval \<Rightarrow> bool" where
  "undefinedOrNull variable = (variable = Undefined \<or> variable = Null)"

definition isString :: "jsval \<Rightarrow> bool" where
  "isString obj = (case obj of JStr _ \<Rightarrow> True | _ \<Rightarrow> False)"

text \<open>Truthiness, as \<^verbatim>\<open>if (v)\<close> tests it.\<close>

fun truthy :: "jsval \<Rightarrow> bool" where
  "truthy Undefined = False"
| "truthy Null = False"
| "truthy (JBool b) = b"
| "truthy (JNum i) = (i \<noteq> 0)"
| "truthy (JStr s) = (s \<noteq> [])"
| "truthy (JArr _) = True"
| "truthy (JObj _) = True"

text \<open>
  Relational comparison. Two strings compare by code units; otherwise both operands
  are converted to numbers, where \<open>None\<close> is NaN and every comparison with NaN is
  false. The conversion of a string to a number is the host's (\<open>str_num\<close>).
\<close>

fun str_less :: "string \<Rightarrow> string \<Rightarrow> bool" where
  "str_less [] [] = False"
| "str_less [] (y # ys) = True"
| "str_less (x # xs) [] = False"
| "str_less (x # xs) (y # ys) =
     (of_char x < (of_char y :: nat) \<or> (x = y \<and> str_less xs ys))"

fun to_primitive :: "jsval \<Rightarrow> jsval" where
  "to_primitive (JArr xs) = JStr (to_string (JArr xs))"
| "to_primitive (JObj kvs) = JStr (to_string (JObj kvs))"
| "to_primitive v = v"

fun to_number :: "(string \<Rightarrow> int option) \<Rightarrow> jsval \<Rightarrow> int option" where
  "to_number str_num Undefined = None"
| "to_number str_num Null = Some 0"
| "to_number str_num (JBool b) = Some (if b then 1 else 0)"
| "to_number str_num (JNum i) = Some i"
| "to_number str_num (JStr s) = str_num s"
| "to_number str_num v = str_num (to_string v)"

definition js_less :: "(string \<Rightarrow> int option) \<Rightarrow> jsval \<Rightarrow> jsval \<Rightarrow> bool option" where
  "js_less str_num a b =
     (case (to_primitive a, to_primitive b) of
        (JStr s, JStr t) \<Rightarrow> Some (str_less s t)
      | (pa, pb) \<Rightarrow>
          (case (to_number str_num pa, to_number str_num pb) of
             (Some x, Some y) \<Rightarrow> Some (x < y)
           | _ \<Rightarrow> None))"

text \<open>\<^verbatim>\<open>a > b\<close> and \<^verbatim>\<open>a <= b\<close>.\<close>

definition js_gt :: "(string \<Rightarrow> int option) \<Rightarrow> jsval \<Rightarrow> jsval \<Rightarrow> bool" where
  "js_gt str_num a b = (js_less str_num b a = Some True)"

definition js_le :: "(string \<Rightarrow> int option) \<Rightarrow> jsval \<Rightarrow> jsval \<Rightarrow> bool" where
  "js_le str_num a b = (js_less str_num b a = Some False)"

subsection \<open>Properties\<close>

definition indexed :: "jsval list \<Rightarrow> (string \<times> jsval) list" where
  "indexed xs = zip (map show_nat [0 ..< length xs]) xs"

text \<open>The own properties that \<^verbatim>\<open>hasOwnProperty\<close> and \<^verbatim>\<open>Object.keys\<close> see.\<close>

fun own :: "jsval \<Rightarrow> (string \<times> jsval) list" where
  "own (JObj kvs) = kvs"
| "own (JArr xs) = indexed xs"
| "own (JStr s) = indexed (map (\<lambda>c. JStr [c]) s)"
| "own v = []"

text \<open>\<^verbatim>\<open>o[k]\<close> read: a TypeError on undefined and null.\<close>

definition get :: "jsval \<Rightarrow> string \<Rightarrow> exn + jsval" where
  "get o' k =
     (if undefinedOrNull o' then Inl (TypeError (''Cannot read property '' @ k @ '' of '' @ to_string o'))
      else case map_of (own o') k of
             Some v \<Rightarrow> Inr v
           | None \<Rightarrow>
               (if k = ''length'' then
                  (case o' of JArr xs \<Rightarrow> Inr (JNum (int (length xs)))
                   | JStr s \<Rightarrow> Inr (JNum (int (length s)))
                   | _ \<Rightarrow> Inr Undefined)
                else Inr Undefined))"

text \<open>
  \<^verbatim>\<open>o[k] = v\<close>. Every function of the script is in strict mode, where a write to a
  property of a primitive throws as a write to undefined does. On an array only the
  replacement of an element is modelled: a property with another name leaves the array
  as it is, which is what \<^verbatim>\<open>JSON.stringify\<close> stores of it. The script itself
  builds objects only, never arrays.
\<close>

definition put :: "jsval \<Rightarrow> string \<Rightarrow> jsval \<Rightarrow> exn + jsval" where
  "put o' k v =
     (case o' of
        JObj kvs \<Rightarrow> Inr (JObj (AList.update k v kvs))
      | JArr xs \<Rightarrow> Inr (JArr (map (\<lambda>(i, x). if i = k then v else x) (indexed xs)))
      | _ \<Rightarrow> Inl (TypeError (''Cannot set property '' @ k @ '' of '' @ to_string o')))"

text \<open>
  \<^verbatim>\<open>delete o[k]\<close>: the property of an object is removed; on undefined and null it
  throws; any other value is left as it is.
\<close>

definition delete_prop :: "jsval \<Rightarrow> string \<Rightarrow> exn + jsval" where
  "delete_prop o' k =
     (case o' of
        JObj kvs \<Rightarrow> Inr (JObj (AList.delete k kvs))
      | Undefined \<Rightarrow> Inl (TypeError (''Cannot convert undefined or null to object''))
      | Null \<Rightarrow> Inl (TypeError (''Cannot convert undefined or null to object''))
      | v \<Rightarrow> Inr v)"

text \<open>\<^verbatim>\<open>o.hasOwnProperty(k)\<close>, the method being found on every value but undefined and null.\<close>

definition hasOwnProperty :: "jsval \<Rightarrow> string \<Rightarrow> exn + bool" where
  "hasOwnProperty o' k =
     (if undefinedOrNull o' then Inl (TypeError (''Cannot read property hasOwnProperty of '' @ to_string o'))
      else Inr (k \<in> fst ` set (own o')))"

text \<open>\<^verbatim>\<open>Object.keys(o).length\<close>.\<close>

definition keys_length :: "jsval \<Rightarrow> exn + jsval" where
  "keys_length o' =
     (if undefinedOrNull o' then Inl (TypeError ''Cannot convert undefined or null to object'')
      else Inr (JNum (int (length (remdups (map fst (own o')))))))"


subsection \<open>JSON text\<close>

text \<open>
  \<^verbatim>\<open>JSON.stringify\<close>: a property whose value is undefined is left out, an undefined
  array element is printed as null; quotes, backslashes and control characters of a
  string are escaped.
\<close>

definition hex_digit :: "nat \<Rightarrow> char" where
  "hex_digit d = (if d < 10 then char_of (48 + d) else char_of (87 + d))"

definition escape_char :: "char \<Rightarrow> string" where
  "escape_char c =
     (if c = CHR 0x22 then [CHR 0x5C, CHR 0x22]
      else if c = CHR 0x5C then [CHR 0x5C, CHR 0x5C]
      else if c = CHR 0x08 then [CHR 0x5C, CHR ''b'']
      else if c = CHR 0x0C then [CHR 0x5C, CHR ''f'']
      else if c = CHR 0x0A then [CHR 0x5C, CHR ''n'']
      else if c = CHR 0x0D then [CHR 0x5C, CHR ''r'']
      else if c = CHR 0x09 then [CHR 0x5C, CHR ''t'']
      else if (of_char c :: nat) < 32
        then [CHR 0x5C, CHR ''u'', CHR ''0'', CHR ''0'',
              hex_digit (of_char c div 16), hex_digit (of_char c mod 16)]
      else [c])"

definition quote :: "string \<Rightarrow> string" where
  "quote s = [CHR 0x22] @ concat (map escape_char s) @ [CHR 0x22]"

fun stringify :: "jsval \<Rightarrow> string"
  and stringify_elems :: "jsval list \<Rightarrow> string list"
  and stringify_fields :: "(string \<times> jsval) list \<Rightarrow> (string \<times> string) list" where
  "stringify Undefined = ''undefined''"
| "stringify Null = ''null''"
| "stringify (JBool b) = (if b then ''true'' else ''false'')"
| "stringify (JNum i) = show_int i"
| "stringify (JStr s) = quote s"
| "stringify (JArr xs) = ''['' @ join_with '','' (stringify_elems xs) @ '']''"
| "stringify (JObj kvs) =
     ''{'' @ join_with '','' (map (\<lambda>(k, t). quote k @ '':'' @ t)
                               (filter (\<lambda>(k, t). t \<noteq> [])
                                  (AList.clearjunk (stringify_fields kvs)))) @ ''}''"
| "stringify_elems [] = []"
| "stringify_elems (x # xs) =
     (if x = Undefined then ''null'' else stringify x) # stringify_elems xs"
| "stringify_fields [] = []"
| "stringify_fields ((k, v) # kvs) =
     (if v = Undefined then (k, []) # stringify_fields kvs
      else (k, stringify v) # stringify_fields kvs)"

text \<open>
  What \<^verbatim>\<open>JSON.parse(JSON.stringify(v))\<close> returns: \<open>v\<close> without its undefined
  properties, each key once.
\<close>

fun roundtrip :: "jsval \<Rightarrow> jsval"
  and roundtrip_elems :: "jsval list \<Rightarrow> jsval list"
  and roundtrip_fields :: "(string \<times> jsval) list \<Rightarrow> (string \<times> jsval) list" where
  "roundtrip (JArr xs) = JArr (roundtrip_elems xs)"
| "roundtrip (JObj kvs) =
     JObj (filter (\<lambda>(k, v). v \<noteq> Undefined) (AList.clearjunk (roundtrip_fields kvs)))"
| "roundtrip v = v"
| "roundtrip_elems [] = []"
| "roundtrip_elems (x # xs) = (if x = Undefined then Null else roundtrip x) # roundtrip_elems xs"
| "roundtrip_fields [] = []"
| "roundtrip_fields ((k, v) # kvs) = (k, roundtrip v) # roundtrip_fields kvs"


section \<open>The host: store, caller, clock\<close>

text \<open>
  Modelled from the spec: the shared group store and the title data of the PlayFab
  server API (\<^verbatim>\<open>server.CreateSharedGroup\<close>, \<^verbatim>\<open>UpdateSharedGroupData\<close>,
  \<^verbatim>\<open>GetSharedGroupData\<close>, \<^verbatim>\<open>DeleteSharedGroup\<close>, \<^verbatim>\<open>SetTitleData\<close>) are
  external; the repository holds only their type declarations. The store offers create,
  get, set and delete by key with string values. A group is created once (creating it
  again is the error \<^verbatim>\<open>InvalidSharedGroupId\<close> that \<^verbatim>\<open>onGameCreated\<close> expects), and
  reading, writing or deleting a group that does not exist is an error.

  The store's values are strings. \<open>Enc v\<close> is the string \<^verbatim>\<open>JSON.stringify(v)\<close>,
  \<open>Raw s\<close> is a string the script passed on as it was. \<^verbatim>\<open>JSON.parse\<close> of the first
  is the round trip of \<open>v\<close>; on any other string it is the host's parser.
\<close>

datatype stored = Raw string | Enc jsval

record store =
  groups :: "(string \<times> (string \<times> stored) list) list"
  title :: "(string \<times> stored) list"

text \<open>
  What a call reads from its host: the authenticated caller
  (\<^verbatim>\<open>currentPlayerId\<close>, undefined in the close webhook), the clock
  (\<^verbatim>\<open>getISOTimestamp\<close>), the text of \<^verbatim>\<open>Math.random()\<close>, the script's
  environment, and the two conversions of strings that the value model leaves to the
  host.
\<close>

record host =
  currentPlayerId :: jsval
  now :: string
  random :: string
  titleId :: jsval
  scriptVersion :: jsval
  scriptRevision :: jsval
  serverVersion :: jsval
  JSON_parse :: "string \<Rightarrow> jsval option"
  str_num :: "string \<Rightarrow> int option"

text \<open>
  A computation runs on the store and returns a value or throws; what it wrote before
  it threw stays written.
\<close>

type_synonym 'a run = "store \<Rightarrow> (exn + 'a) \<times> store"

definition ret :: "'a \<Rightarrow> 'a run" where
  "ret x = (\<lambda>s. (Inr x, s))"

definition throw :: "exn \<Rightarrow> 'a run" where
  "throw e = (\<lambda>s. (Inl e, s))"

definition bnd :: "'a run \<Rightarrow> ('a \<Rightarrow> 'b run) \<Rightarrow> 'b run" where
  "bnd m f = (\<lambda>s. case m s of (Inl e, s') \<Rightarrow> (Inl e, s') | (Inr x, s') \<Rightarrow> f x s')"

definition seq :: "unit run \<Rightarrow> 'b run \<Rightarrow> 'b run" where
  "seq m n = bnd m (\<lambda>_. n)"

definition lift :: "exn + 'a \<Rightarrow> 'a run" where
  "lift r = (case r of Inl e \<Rightarrow> throw e | Inr x \<Rightarrow> ret x)"

definition when_do :: "bool \<Rightarrow> unit run \<Rightarrow> unit run" where
  "when_do b m = (if b then m else ret ())"

definition try_catch :: "'a run \<Rightarrow> (exn \<Rightarrow> 'a run) \<Rightarrow> 'a run" where
  "try_catch m h = (\<lambda>s. case m s of (Inl e, s') \<Rightarrow> h e s' | (Inr x, s') \<Rightarrow> (Inr x, s'))"

subsection \<open>The server API\<close>

definition server_CreateSharedGroup :: "string \<Rightarrow> unit run" where
  "server_CreateSharedGroup gid = (\<lambda>s.
     case map_of (groups s) gid of
       Some _ \<Rightarrow> (Inl (ApiError ''InvalidSharedGroupId''), s)
     | None \<Rightarrow> (Inr (), s\<lparr>groups := AList.update gid [] (groups s)\<rparr>))"

text \<open>
  A request entry is a string to store, null (the key is removed) or nothing (an
  undefined value is not part of the request).
\<close>

datatype entry = Store stored | Remove | Skip

fun apply_entries :: "(string \<times> entry) list \<Rightarrow> (string \<times> stored) list \<Rightarrow> (string \<times> stored) list" where
  "apply_entries [] g = g"
| "apply_entries ((k, Store v) # es) g = apply_entries es (AList.update k v g)"
| "apply_entries ((k, Remove) # es) g = apply_entries es (AList.delete k g)"
| "apply_entries ((k, Skip) # es) g = apply_entries es g"

definition server_UpdateSharedGroupData :: "string \<Rightarrow> (string \<times> entry) list \<Rightarrow> unit run" where
  "server_UpdateSharedGroupData gid es = (\<lambda>s.
     case map_of (groups s) gid of
       None \<Rightarrow> (Inl (ApiError ''InvalidSharedGroupId''), s)
     | Some g \<Rightarrow> (Inr (), s\<lparr>groups := AList.update gid (apply_entries es g) (groups s)\<rparr>))"

definition server_GetSharedGroupData :: "string \<Rightarrow> string list option \<Rightarrow> (string \<times> stored) list run" where
  "server_GetSharedGroupData gid ks = (\<lambda>s.
     case map_of (groups s) gid of
       None \<Rightarrow> (Inl (ApiError ''InvalidSharedGroupId''), s)
     | Some g \<Rightarrow>
         (Inr (case ks of None \<Rightarrow> AList.clearjunk g
               | Some keys \<Rightarrow> filter (\<lambda>(k, v). k \<in> set keys) (AList.clearjunk g)), s))"

definition server_DeleteSharedGroup :: "string \<Rightarrow> unit run" where
  "server_DeleteSharedGroup gid = (\<lambda>s.
     case map_of (groups s) gid of
       None \<Rightarrow> (Inl (ApiError ''InvalidSharedGroupId''), s)
     | Some g \<Rightarrow> (Inr (), s\<lparr>groups := AList.delete gid (groups s)\<rparr>))"

definition server_SetTitleData :: "string \<Rightarrow> stored \<Rightarrow> unit run" where
  "server_SetTitleData k v = (\<lambda>s. (Inr (), s\<lparr>title := AList.update k v (title s)\<rparr>))"


section \<open>The script's store adapter\<close>

definition GAMES_LIST_SUFFIX :: string where
  "GAMES_LIST_SUFFIX = ''_GamesList''"

definition getGamesListId :: "jsval \<Rightarrow> jsval" where
  "getGamesListId playerId = JStr (to_string playerId @ GAMES_LIST_SUFFIX)"

definition field :: "jsval \<Rightarrow> string \<Rightarrow> jsval run" where
  "field o' k = lift (get o' k)"

definition createSharedGroup :: "jsval \<Rightarrow> unit run" where
  "createSharedGroup gid = server_CreateSharedGroup (to_string gid)"

text \<open>
  \<^verbatim>\<open>updateSharedGroupData\<close> replaces, in the caller's object, every value that is
  neither undefined, null nor a string by its JSON text, and sends the object. The
  caller's object after the call is the result.
\<close>

definition encode_field :: "jsval \<Rightarrow> jsval" where
  "encode_field v = (if \<not> undefinedOrNull v \<and> \<not> isString v then JStr (stringify v) else v)"

definition request_entry :: "jsval \<Rightarrow> entry" where
  "request_entry v =
     (case v of Undefined \<Rightarrow> Skip | Null \<Rightarrow> Remove | JStr s \<Rightarrow> Store (Raw s) | _ \<Rightarrow> Store (Enc v))"

definition updateSharedGroupData :: "jsval \<Rightarrow> jsval \<Rightarrow> jsval run" where
  "updateSharedGroupData gid data =
     (let fields = AList.clearjunk (own data) in
      seq (server_UpdateSharedGroupData (to_string gid) (map (\<lambda>(k, v). (k, request_entry v)) fields))
          (ret (case data of JObj kvs \<Rightarrow> JObj (map (\<lambda>(k, v). (k, encode_field v)) kvs) | _ \<Rightarrow> data)))"

definition parse_stored :: "host \<Rightarrow> stored \<Rightarrow> exn + jsval" where
  "parse_stored h v =
     (case v of
        Enc j \<Rightarrow> Inr (roundtrip j)
      | Raw t \<Rightarrow>
          (case JSON_parse h t of
             Some j \<Rightarrow> Inr j
           | None \<Rightarrow> Inl (JsError ''SyntaxError'' ''Unexpected token in JSON'')))"

fun parse_fields :: "host \<Rightarrow> (string \<times> stored) list \<Rightarrow> exn + (string \<times> jsval) list" where
  "parse_fields h [] = Inr []"
| "parse_fields h ((k, v) # kvs) =
     (case parse_stored h v of
        Inl e \<Rightarrow> Inl e
      | Inr j \<Rightarrow> (case parse_fields h kvs of Inl e \<Rightarrow> Inl e | Inr js \<Rightarrow> Inr ((k, j) # js)))"

definition getSharedGroupData :: "host \<Rightarrow> jsval \<Rightarrow> jsval list option \<Rightarrow> jsval run" where
  "getSharedGroupData h gid keys =
     bnd (server_GetSharedGroupData (to_string gid) (map_option (map to_string) keys))
       (\<lambda>fields. bnd (lift (parse_fields h fields)) (\<lambda>kvs. ret (JObj kvs)))"

definition deleteSharedGroup :: "jsval \<Rightarrow> unit run" where
  "deleteSharedGroup gid = server_DeleteSharedGroup (to_string gid)"

definition getSharedGroupEntry :: "host \<Rightarrow> jsval \<Rightarrow> jsval \<Rightarrow> jsval run" where
  "getSharedGroupEntry h gid key = getSharedGroupData h gid (Some [key])"

definition updateSharedGroupEntry :: "jsval \<Rightarrow> jsval \<Rightarrow> jsval \<Rightarrow> unit run" where
  "updateSharedGroupEntry gid key val =
     bnd (updateSharedGroupData gid (JObj [(to_string key, val)])) (\<lambda>_. ret ())"

definition deleteSharedGroupEntry :: "jsval \<Rightarrow> jsval \<Rightarrow> unit run" where
  "deleteSharedGroupEntry gid key = updateSharedGroupEntry gid key Null"

section \<open>Typed errors and the audit trail\<close>

text \<open>
  \<^verbatim>\<open>timestamp + Math.random()\<close>: a concatenation when the timestamp is a string, NaN
  when the caller passed none.
\<close>

definition logException :: "host \<Rightarrow> string option \<Rightarrow> jsval \<Rightarrow> string \<Rightarrow> unit run" where
  "logException h timestamp data message =
     server_SetTitleData (case timestamp of Some t \<Rightarrow> t @ random h | None \<Rightarrow> ''NaN'')
       (Enc (JObj [(''Message'', JStr message), (''Data'', data)]))"

text \<open>\<^verbatim>\<open>throw new PhotonException(code, msg, timestamp, data)\<close>: the constructor logs first.\<close>

definition throw_photon :: "host \<Rightarrow> int \<Rightarrow> string \<Rightarrow> string option \<Rightarrow> jsval \<Rightarrow> 'a run" where
  "throw_photon h code msg timestamp data =
     bnd (logException h timestamp data msg) (\<lambda>_. throw (PhotonException code msg))"

definition LeaveReason :: jsval where
  "LeaveReason = JObj
     [(''ClientDisconnect'', JStr ''0''), (''ClientTimeoutDisconnect'', JStr ''1''),
      (''ManagedDisconnect'', JStr ''2''), (''ServerDisconnect'', JStr ''3''),
      (''TimeoutDisconnect'', JStr ''4''), (''ConnectTimeout'', JStr ''5''),
      (''SwitchRoom'', JStr ''100''), (''LeaveRequest'', JStr ''101''),
      (''PlayerTtlTimedOut'', JStr ''102''), (''PeerLastTouchTimedout'', JStr ''103''),
      (''PluginRequest'', JStr ''104''), (''PluginFailedJoin'', JStr ''105'')]"


section \<open>The argument validator\<close>

definition missing :: "host \<Rightarrow> jsval \<Rightarrow> string \<Rightarrow> string option \<Rightarrow> unit run" where
  "missing h args name timestamp =
     bnd (field args name) (\<lambda>v.
       when_do (undefinedOrNull v)
         (throw_photon h 1 (''Missing argument: '' @ name) timestamp args))"

text \<open>Every type but Close and Save: the acting player.\<close>

definition check_actor :: "host \<Rightarrow> jsval \<Rightarrow> string option \<Rightarrow> unit run" where
  "check_actor h args timestamp =
     seq (missing h args ''ActorNr'' timestamp)
    (seq (missing h args ''UserId'' timestamp)
    (bnd (field args ''UserId'') (\<lambda>UserId.
     seq (when_do (\<not> strict_eq UserId (currentPlayerId h))
            (throw_photon h 3 (''currentPlayerId='' @ to_string (currentPlayerId h) @ '' does not match UserId'')
               timestamp args))
    (bnd (field args ''Username'') (\<lambda>Username.
     bnd (field args ''Nickname'') (\<lambda>Nickname.
       when_do (undefinedOrNull Username \<and> undefinedOrNull Nickname)
         (throw_photon h 1 (''Missing argument: '' @ ''Username/Nickname'') timestamp args)))))))"

text \<open>Close and Save: the actor count, which an accompanying actor list must match.\<close>

definition check_count :: "host \<Rightarrow> jsval \<Rightarrow> string option \<Rightarrow> unit run" where
  "check_count h args timestamp =
     seq (missing h args ''ActorCount'' timestamp)
    (bnd (field args ''State2'') (\<lambda>State2.
       if undefinedOrNull State2 then ret ()
       else bnd (field State2 ''ActorList'') (\<lambda>ActorList.
         if undefinedOrNull ActorList then ret ()
         else bnd (field ActorList ''length'') (\<lambda>len.
              bnd (field args ''ActorCount'') (\<lambda>ActorCount.
                when_do (\<not> strict_eq len ActorCount)
                  (throw_photon h 2 ''ActorCount does not match ActorList.count'' timestamp args))))))"

definition state_with_username :: "host \<Rightarrow> jsval \<Rightarrow> string option \<Rightarrow> unit run" where
  "state_with_username h args timestamp =
     bnd (field args ''Username'') (\<lambda>Username.
     bnd (field args ''State'') (\<lambda>State.
       when_do (\<not> undefinedOrNull Username \<and> undefinedOrNull State)
         (throw_photon h 1 (''Missing argument: '' @ ''State'') timestamp args)))"

text \<open>The \<^verbatim>\<open>default\<close> branch of the switch: the leave types.\<close>

definition check_leave :: "host \<Rightarrow> jsval \<Rightarrow> jsval \<Rightarrow> string option \<Rightarrow> unit run" where
  "check_leave h args Type timestamp =
     bnd (lift (hasOwnProperty LeaveReason (to_string Type))) (\<lambda>known.
       if known then
         seq (missing h args ''IsInactive'' timestamp)
        (seq (missing h args ''Reason'' timestamp)
        (bnd (field LeaveReason (to_string Type)) (\<lambda>code.
         bnd (field args ''Reason'') (\<lambda>Reason.
         seq (when_do (\<not> strict_eq code Reason)
                (throw_photon h 2 ''Reason code does not match Leave Type string'' timestamp args))
             (when_do (list_ex (\<lambda>c. strict_eq c Reason) [JStr ''1'', JStr ''100'', JStr ''103'', JStr ''105''])
                (throw_photon h 2 ''Unexpected LeaveReason'' timestamp args))))))
       else throw_photon h 2 (''Unexpected Type:'' @ to_string Type) None Undefined)"

definition check_type :: "host \<Rightarrow> jsval \<Rightarrow> jsval \<Rightarrow> string option \<Rightarrow> unit run" where
  "check_type h args Type timestamp =
     (if strict_eq Type (JStr ''Load'') then missing h args ''CreateIfNotExists'' timestamp
      else if strict_eq Type (JStr ''Create'') then
        seq (missing h args ''CreateOptions'' timestamp)
       (bnd (field args ''ActorNr'') (\<lambda>ActorNr.
          when_do (\<not> strict_eq ActorNr (JNum 1))
            (throw_photon h 2 ''ActorNr != 1 and Type == Create'' timestamp args)))
      else if strict_eq Type (JStr ''Join'') then ret ()
      else if strict_eq Type (JStr ''Player'') then
        seq (missing h args ''TargetActor'' timestamp)
       (seq (missing h args ''Properties'' timestamp)
            (state_with_username h args timestamp))
      else if strict_eq Type (JStr ''Game'') then
        seq (missing h args ''Properties'' timestamp) (state_with_username h args timestamp)
      else if strict_eq Type (JStr ''Event'') then
        seq (missing h args ''Data'' timestamp) (state_with_username h args timestamp)
      else if strict_eq Type (JStr ''Save'') then
        seq (missing h args ''State'' timestamp)
       (bnd (field args ''ActorCount'') (\<lambda>ActorCount.
          when_do (js_le (str_num h) ActorCount (JNum 0))
            (throw_photon h 2 ''ActorCount <= 0 and Type == Save'' timestamp args)))
      else if strict_eq Type (JStr ''Close'') then
        bnd (field args ''ActorCount'') (\<lambda>ActorCount.
          when_do (\<not> strict_eq ActorCount (JNum 0))
            (throw_photon h 2 ''ActorCount != 0 and Type == Close'' timestamp args))
      else if strict_eq Type (JStr ''Leave'') then
        throw_photon h 2 ''Deprecated forward plugin webhook!'' timestamp args
      else check_leave h args Type timestamp)"

definition checkWebhookArgs :: "host \<Rightarrow> jsval \<Rightarrow> string option \<Rightarrow> unit run" where
  "checkWebhookArgs h args timestamp =
     seq (missing h args ''AppId'' timestamp)
    (seq (missing h args ''AppVersion'' timestamp)
    (seq (missing h args ''Region'' timestamp)
    (seq (missing h args ''GameId'' timestamp)
    (seq (missing h args ''Type'' timestamp)
    (bnd (field args ''Type'') (\<lambda>Type.
     seq (if \<not> strict_eq Type (JStr ''Close'') \<and> \<not> strict_eq Type (JStr ''Save'')
          then check_actor h args timestamp
          else check_count h args timestamp)
         (check_type h args Type timestamp)))))))"


section \<open>The webhook handlers\<close>

text \<open>What a handler returns: \<^verbatim>\<open>{ResultCode, Message}\<close>, with \<^verbatim>\<open>State\<close> on a load.\<close>

record result =
  ResultCode :: int
  Message :: string
  State :: "jsval option"

definition OK :: result where
  "OK = \<lparr>ResultCode = 0, Message = ''OK'', State = None\<rparr>"

text \<open>
  The \<^verbatim>\<open>catch\<close> block every handler ends with. An error of the server API has no
  \<^verbatim>\<open>name\<close> and no \<^verbatim>\<open>message\<close>.
\<close>

definition on_error :: "exn \<Rightarrow> result run" where
  "on_error e =
     (case e of
        PhotonException code msg \<Rightarrow> ret \<lparr>ResultCode = code, Message = msg, State = None\<rparr>
      | JsError name message \<Rightarrow> ret \<lparr>ResultCode = - 1, Message = name @ '': '' @ message, State = None\<rparr>
      | ApiError code \<Rightarrow> ret \<lparr>ResultCode = - 1, Message = ''undefined: undefined'', State = None\<rparr>)"

definition onGameCreated :: "host \<Rightarrow> jsval \<Rightarrow> string \<Rightarrow> string run" where
  "onGameCreated h args timestamp =
     bnd (try_catch (bnd (field args ''GameId'') (\<lambda>GameId. seq (createSharedGroup GameId) (ret [])))
            (\<lambda>e. ret (case e of ApiError code \<Rightarrow>
                            if code = ''InvalidSharedGroupId'' then ''game already exists.'' else ''game error''
                        | _ \<Rightarrow> ''game error''))) (\<lambda>msg.
     bnd (field args ''Region'') (\<lambda>Region.
     bnd (field args ''AppVersion'') (\<lambda>AppVersion.
     bnd (field args ''AppId'') (\<lambda>AppId.
     bnd (field args ''Nickname'') (\<lambda>Nickname.
     bnd (field args ''CreateOptions'') (\<lambda>CreateOptions.
     bnd (field args ''UserId'') (\<lambda>UserId.
     bnd (field args ''Type'') (\<lambda>Type.
     bnd (field args ''GameId'') (\<lambda>GameId.
     bnd (updateSharedGroupData GameId (JObj
            [(''Env'', JObj
                [(''Region'', Region), (''AppVersion'', AppVersion), (''AppId'', AppId),
                 (''TitleId'', titleId h), (''CloudScriptVersion'', scriptVersion h),
                 (''CloudScriptRevision'', scriptRevision h), (''PlayFabServerVersion'', serverVersion h),
                 (''WebhooksVersion'', if undefinedOrNull Nickname then JStr ''1.0'' else JStr ''1.2'')]),
             (''RoomOptions'', CreateOptions),
             (''Creation'', JObj [(''Timestamp'', JStr timestamp), (''UserId'', UserId), (''Type'', Type)]),
             (''Actors'', JObj [(''1'', JObj [(''UserId'', UserId), (''Inactive'', JBool False)])]),
             (''NextActorNr'', JNum 2)])) (\<lambda>data.
     seq (updateSharedGroupEntry (getGamesListId (currentPlayerId h)) GameId data)
         (ret msg)))))))))))"

text \<open>
  \<^verbatim>\<open>handlers.RoomCreated\<close>. The first statement, outside the \<^verbatim>\<open>try\<close>, logs
  \<^verbatim>\<open>args.GameId\<close> and \<^verbatim>\<open>args.CreateOptions.MaxPlayers\<close>.
\<close>

definition load_room :: "host \<Rightarrow> jsval \<Rightarrow> string \<Rightarrow> result run" where
  "load_room h args timestamp =
     bnd (field args ''GameId'') (\<lambda>GameId.
     bnd (getSharedGroupEntry h (getGamesListId (currentPlayerId h)) GameId) (\<lambda>data.
     bnd (field data ''Creation'') (\<lambda>Creation.
     bnd (field Creation ''UserId'') (\<lambda>creator.
     bnd (if \<not> strict_eq creator (currentPlayerId h)
          then getSharedGroupEntry h (getGamesListId creator) GameId
          else ret data) (\<lambda>data.
     bnd (field data ''State'') (\<lambda>State.
       if undefinedOrNull State then
         bnd (field args ''CreateIfNotExists'') (\<lambda>CreateIfNotExists.
           if strict_eq CreateIfNotExists (JBool False)
           then throw_photon h 5 (''Room='' @ to_string GameId @ '' not found'') (Some timestamp) args
           else seq (bnd (onGameCreated h args timestamp) (\<lambda>_. ret ()))
                    (ret \<lparr>ResultCode = 0, Message = ''OK'', State = Some (JStr [])\<rparr>))
       else
         bnd (field data ''LoadEvents'') (\<lambda>LoadEvents.
         bnd (if undefinedOrNull LoadEvents then lift (put data ''LoadEvents'' (JObj [])) else ret data) (\<lambda>data.
         bnd (field data ''LoadEvents'') (\<lambda>LoadEvents.
         bnd (field args ''ActorNr'') (\<lambda>ActorNr.
         bnd (field args ''UserId'') (\<lambda>UserId.
         bnd (lift (put LoadEvents timestamp (JObj [(''ActorNr'', ActorNr), (''UserId'', UserId)]))) (\<lambda>LoadEvents.
         bnd (lift (put data ''LoadEvents'' LoadEvents)) (\<lambda>data.
         seq (createSharedGroup GameId)
        (bnd (updateSharedGroupData GameId data) (\<lambda>data.
         bnd (field data ''State'') (\<lambda>State.
           ret \<lparr>ResultCode = 0, Message = ''OK'', State = Some State\<rparr>))))))))))))))))"

definition RoomCreated_body :: "host \<Rightarrow> jsval \<Rightarrow> result run" where
  "RoomCreated_body h args =
     seq (checkWebhookArgs h args (Some (now h)))
    (bnd (field args ''Type'') (\<lambda>Type.
       if strict_eq Type (JStr ''Create'') then
         seq (bnd (onGameCreated h args (now h)) (\<lambda>_. ret ())) (ret OK)
       else if strict_eq Type (JStr ''Load'') then load_room h args (now h)
       else throw_photon h 2 (''Wrong PathCreate Type='' @ to_string Type) (Some (now h))
              (JObj [(''Webhook'', args)])))"

definition RoomCreated :: "host \<Rightarrow> jsval \<Rightarrow> result run" where
  "RoomCreated h args =
     bnd (field args ''GameId'') (\<lambda>GameId.
     bnd (field args ''CreateOptions'') (\<lambda>CreateOptions.
     bnd (field CreateOptions ''MaxPlayers'') (\<lambda>MaxPlayers.
       try_catch (RoomCreated_body h args) on_error)))"


text \<open>
  \<^verbatim>\<open>v + 1\<close> for the values \<^verbatim>\<open>data.NextActorNr\<close> can have where it is
  incremented, that is when it is strictly equal to a validated actor number: a
  number is incremented, a string is extended. (On undefined the result is NaN, which
  the store holds as null.)
\<close>

fun plus_one :: "jsval \<Rightarrow> jsval" where
  "plus_one (JNum i) = JNum (i + 1)"
| "plus_one (JBool b) = JNum (if b then 2 else 1)"
| "plus_one Null = JNum 1"
| "plus_one Undefined = Null"
| "plus_one v = JStr (to_string v @ ''1'')"

text \<open>The rejoin branch of \<^verbatim>\<open>handlers.RoomJoined\<close>: the slot was assigned before.\<close>

definition rejoin :: "host \<Rightarrow> jsval \<Rightarrow> jsval \<Rightarrow> string \<Rightarrow> jsval run" where
  "rejoin h args data timestamp =
     bnd (field args ''ActorNr'') (\<lambda>ActorNr.
     bnd (field args ''UserId'') (\<lambda>UserId.
     bnd (field data ''ActiveActors'') (\<lambda>ActiveActors.
     bnd (field ActiveActors (to_string ActorNr)) (\<lambda>active.
     bnd (field active ''Inactive'') (\<lambda>Inactive.
     bnd (if strict_eq Inactive (JBool False) then
            throw_photon h 2 ''Actor is already joined'' (Some timestamp)
              (JObj [(''Webhook'', args), (''CustomState'', data)])
          else
            bnd (field data ''RoomOptions'') (\<lambda>RoomOptions.
            bnd (field RoomOptions ''CheckUserOnJoin'') (\<lambda>CheckUserOnJoin.
            bnd (field data ''Actors'') (\<lambda>Actors.
            bnd (field Actors (to_string ActorNr)) (\<lambda>actor.
              if strict_eq CheckUserOnJoin (JBool True) then
                bnd (field actor ''UserId'') (\<lambda>occupant.
                  if \<not> strict_eq UserId occupant then
                    throw_photon h 2 ''Illegal rejoin with different UserId'' (Some timestamp)
                      (JObj [(''Webhook'', args), (''CustomState'', data)])
                  else ret data)
              else
                bnd (field actor ''UserId'') (\<lambda>occupant.
                  if \<not> strict_eq UserId occupant then
                    bnd (lift (put actor ''UserId'' UserId)) (\<lambda>actor.
                    bnd (lift (put Actors (to_string ActorNr) actor)) (\<lambda>Actors.
                      lift (put data ''Actors'' Actors)))
                  else ret data)))))) (\<lambda>data.
     bnd (field data ''Actors'') (\<lambda>Actors.
     bnd (field Actors (to_string ActorNr)) (\<lambda>actor.
     bnd (lift (put actor ''Inactive'' (JBool False))) (\<lambda>actor.
     bnd (lift (put Actors (to_string ActorNr) actor)) (\<lambda>Actors.
       lift (put data ''Actors'' Actors)))))))))))"

text \<open>The new join branch: the next free actor number.\<close>

definition new_join :: "host \<Rightarrow> jsval \<Rightarrow> jsval \<Rightarrow> string \<Rightarrow> jsval run" where
  "new_join h args data timestamp =
     bnd (field args ''ActorNr'') (\<lambda>ActorNr.
     bnd (field args ''UserId'') (\<lambda>UserId.
     bnd (field data ''Actors'') (\<lambda>Actors.
     bnd (lift (keys_length Actors)) (\<lambda>count.
     bnd (field args ''RoomOptions'') (\<lambda>RoomOptions.
     bnd (field RoomOptions ''MaxPlayers'') (\<lambda>MaxPlayers.
       if strict_eq count MaxPlayers then
         throw_photon h 2 ''Actors overflow'' (Some timestamp)
           (JObj [(''Webhook'', args), (''CustomState'', data)])
       else
         bnd (lift (put Actors (to_string ActorNr)
                      (JObj [(''UserId'', UserId), (''Inactive'', JBool False)]))) (\<lambda>Actors.
         bnd (lift (put data ''Actors'' Actors)) (\<lambda>data.
         bnd (field data ''NextActorNr'') (\<lambda>NextActorNr.
           lift (put data ''NextActorNr'' (plus_one NextActorNr)))))))))))"

text \<open>
  \<^verbatim>\<open>handlers.RoomJoined\<close>, in two parts: the statements of the \<^verbatim>\<open>try\<close> block up
  to the first write, which yield the room id, the actor number and the record to
  write, and the block as a whole.
\<close>

definition join_record :: "host \<Rightarrow> jsval \<Rightarrow> (jsval \<times> jsval \<times> jsval) run" where
  "join_record h args =
     seq (checkWebhookArgs h args (Some (now h)))
    (bnd (field args ''GameId'') (\<lambda>GameId.
     bnd (getSharedGroupData h GameId None) (\<lambda>data.
     bnd (field args ''Type'') (\<lambda>Type.
     seq (when_do (\<not> strict_eq Type (JStr ''Join''))
            (throw_photon h 2 (''Wrong PathJoin Type='' @ to_string Type) (Some (now h))
               (JObj [(''Webhook'', args), (''CustomState'', data)])))
    (bnd (field data ''RoomOptions'') (\<lambda>RoomOptions.
     bnd (field RoomOptions ''PlayerTTL'') (\<lambda>PlayerTTL.
     bnd (field data ''NextActorNr'') (\<lambda>NextActorNr.
     bnd (field args ''ActorNr'') (\<lambda>ActorNr.
     bnd (if \<not> strict_eq PlayerTTL (JNum 0) \<and> js_gt (str_num h) NextActorNr ActorNr
            then rejoin h args data (now h)
          else if strict_eq NextActorNr ActorNr
            then new_join h args data (now h)
          else throw_photon h 2 ''Unexpected ActorNr'' (Some (now h))
                 (JObj [(''Webhook'', args), (''CustomState'', data)])) (\<lambda>data.
     bnd (field data ''JoinEvents'') (\<lambda>JoinEvents.
     bnd (if undefinedOrNull JoinEvents then lift (put data ''JoinEvents'' (JObj [])) else ret data) (\<lambda>data.
     bnd (field data ''JoinEvents'') (\<lambda>JoinEvents.
     bnd (field args ''UserId'') (\<lambda>UserId.
     bnd (lift (put JoinEvents (now h) (JObj [(''ActorNr'', ActorNr), (''UserId'', UserId)]))) (\<lambda>JoinEvents.
     bnd (lift (put data ''JoinEvents'' JoinEvents)) (\<lambda>data.
       ret (GameId, ActorNr, data)))))))))))))))))"

definition RoomJoined_body :: "host \<Rightarrow> jsval \<Rightarrow> result run" where
  "RoomJoined_body h args =
     bnd (join_record h args) (\<lambda>(GameId, ActorNr, data).
     bnd (updateSharedGroupData GameId data) (\<lambda>data.
     bnd (field data ''Env'') (\<lambda>Env.
     bnd (field data ''Creation'') (\<lambda>Creation.
     seq (updateSharedGroupEntry (getGamesListId (currentPlayerId h)) GameId
            (JObj [(''Env'', Env), (''Creation'', Creation), (''ActorNr'', ActorNr)]))
         (ret OK)))))"

definition RoomJoined :: "host \<Rightarrow> jsval \<Rightarrow> result run" where
  "RoomJoined h args =
     bnd (field args ''GameId'') (\<lambda>GameId.
     bnd (field args ''UserId'') (\<lambda>UserId.
       try_catch (RoomJoined_body h args) on_error))"


text \<open>
  \<^verbatim>\<open>handlers.RoomLeft\<close>, in the same two parts; a final leave deletes the player's
  index entry before the record is written.
\<close>

definition leave_record :: "host \<Rightarrow> jsval \<Rightarrow> (jsval \<times> jsval) run" where
  "leave_record h args =
     seq (checkWebhookArgs h args (Some (now h)))
    (bnd (field args ''GameId'') (\<lambda>GameId.
     bnd (getSharedGroupData h GameId None) (\<lambda>data.
     bnd (field args ''Type'') (\<lambda>Type.
     bnd (lift (hasOwnProperty LeaveReason (to_string Type))) (\<lambda>known.
     seq (when_do (\<not> known)
            (throw_photon h 2 (''Wrong PathLeave Type='' @ to_string Type) (Some (now h))
               (JObj [(''Webhook'', args), (''CustomState'', data)])))
    (bnd (field args ''ActorNr'') (\<lambda>ActorNr.
     bnd (field args ''UserId'') (\<lambda>UserId.
     bnd (field data ''Actors'') (\<lambda>Actors.
     bnd (lift (hasOwnProperty Actors (to_string ActorNr))) (\<lambda>present.
     seq (when_do (\<not> present)
            (throw_photon h 2 ''No ActorNr inside the room'' (Some (now h))
               (JObj [(''Webhook'', args), (''CustomState'', data)])))
    (bnd (field LeaveReason ''PlayerTtlTimedOut'') (\<lambda>ttl.
     bnd (field Actors (to_string ActorNr)) (\<lambda>actor.
     seq (if \<not> strict_eq Type ttl then
            bnd (field actor ''Inactive'') (\<lambda>Inactive.
              when_do (strict_eq Inactive (JBool True))
                (throw_photon h 2 ''Inactive actors cant leave'' (Some (now h))
                   (JObj [(''Webhook'', args), (''CustomState'', data)])))
          else ret ())
    (bnd (field actor ''UserId'') (\<lambda>occupant.
     seq (when_do (\<not> strict_eq occupant UserId)
            (throw_photon h 2 ''Leaving UserId is different from joined'' (Some (now h))
               (JObj [(''Webhook'', args), (''CustomState'', data)])))
    (bnd (field args ''Inactive'') (\<lambda>Inactive.
     bnd (if truthy Inactive then
            bnd (lift (put actor ''Inactive'' (JBool True))) (\<lambda>actor.
            bnd (lift (put Actors (to_string ActorNr) actor)) (\<lambda>Actors.
              lift (put data ''Actors'' Actors)))
          else
            bnd (lift (delete_prop Actors (to_string ActorNr))) (\<lambda>Actors.
            bnd (lift (put data ''Actors'' Actors)) (\<lambda>data.
            seq (deleteSharedGroupEntry (getGamesListId (currentPlayerId h)) GameId)
                (ret data)))) (\<lambda>data.
     bnd (field data ''LeaveEvents'') (\<lambda>LeaveEvents.
     bnd (if undefinedOrNull LeaveEvents then lift (put data ''LeaveEvents'' (JObj [])) else ret data) (\<lambda>data.
     bnd (field data ''LeaveEvents'') (\<lambda>LeaveEvents.
     bnd (lift (put LeaveEvents (now h)
                  (JObj [(''ActorNr'', ActorNr), (''UserId'', UserId), (''CanRejoin'', Inactive)]))) (\<lambda>LeaveEvents.
     bnd (lift (put data ''LeaveEvents'' LeaveEvents)) (\<lambda>data.
       ret (GameId, data))))))))))))))))))))))))"

definition RoomLeft_body :: "host \<Rightarrow> jsval \<Rightarrow> result run" where
  "RoomLeft_body h args =
     bnd (leave_record h args) (\<lambda>(GameId, data).
     bnd (updateSharedGroupData GameId data) (\<lambda>data.
       ret OK))"

definition RoomLeft :: "host \<Rightarrow> jsval \<Rightarrow> result run" where
  "RoomLeft h args =
     bnd (field args ''GameId'') (\<lambda>GameId.
     bnd (field args ''UserId'') (\<lambda>UserId.
       try_catch (RoomLeft_body h args) on_error))"

definition RoomClosed_body :: "host \<Rightarrow> jsval \<Rightarrow> result run" where
  "RoomClosed_body h args =
     seq (checkWebhookArgs h args (Some (now h)))
    (bnd (field args ''GameId'') (\<lambda>GameId.
     bnd (getSharedGroupData h GameId None) (\<lambda>data.
     bnd (field data ''Actors'') (\<lambda>Actors.
     bnd (lift (keys_length Actors)) (\<lambda>count.
     bnd (field args ''ActorCount'') (\<lambda>ActorCount.
     seq (when_do (\<not> strict_eq count ActorCount)
            (throw_photon h 6 ''Actors count does not match'' (Some (now h))
               (JObj [(''Webhook'', args), (''CustomState'', data)])))
    (bnd (field args ''Type'') (\<lambda>Type.
     seq (if strict_eq Type (JStr ''Close'') then
            bnd (field data ''Creation'') (\<lambda>Creation.
            bnd (field Creation ''UserId'') (\<lambda>creator.
              deleteSharedGroupEntry (getGamesListId creator) GameId))
          else if strict_eq Type (JStr ''Save'') then
            bnd (field data ''SaveEvents'') (\<lambda>SaveEvents.
            bnd (if undefinedOrNull SaveEvents then lift (put data ''SaveEvents'' (JObj [])) else ret data) (\<lambda>data.
            bnd (field data ''SaveEvents'') (\<lambda>SaveEvents.
            bnd (lift (put SaveEvents (now h) (JObj [(''ActorCount'', ActorCount)]))) (\<lambda>SaveEvents.
            bnd (lift (put data ''SaveEvents'' SaveEvents)) (\<lambda>data.
            bnd (field args ''State'') (\<lambda>State.
            bnd (lift (put data ''State'' State)) (\<lambda>data.
            bnd (field data ''Creation'') (\<lambda>Creation.
            bnd (field Creation ''UserId'') (\<lambda>creator.
              updateSharedGroupEntry (getGamesListId creator) GameId data)))))))))
          else throw_photon h 2 (''Wrong PathClose Type='' @ to_string Type) (Some (now h))
                 (JObj [(''Webhook'', args), (''CustomState'', data)]))
    (seq (deleteSharedGroup GameId)
         (ret OK))))))))))"

definition RoomClosed :: "host \<Rightarrow> jsval \<Rightarrow> result run" where
  "RoomClosed h args =
     bnd (field args ''GameId'') (\<lambda>GameId.
       try_catch (RoomClosed_body h args) on_error)"


section \<open>Observing the store\<close>

text \<open>The value of field \<open>k\<close> of the record in group \<open>gid\<close>, as a handler reads it.\<close>

definition room_field :: "host \<Rightarrow> store \<Rightarrow> string \<Rightarrow> string \<Rightarrow> jsval option" where
  "room_field h s gid k =
     (case map_of (groups s) gid of
        None \<Rightarrow> None
      | Some g \<Rightarrow>
          (case map_of g k of
             None \<Rightarrow> None
           | Some v \<Rightarrow> (case parse_stored h v of Inl e \<Rightarrow> None | Inr j \<Rightarrow> Some j)))"

text \<open>An event has the argument \<open>k\<close>: it is neither undefined nor null.\<close>

definition present :: "jsval \<Rightarrow> string \<Rightarrow> bool" where
  "present args k = (case get args k of Inr v \<Rightarrow> \<not> undefinedOrNull v | Inl e \<Rightarrow> False)"

text \<open>The group of the room an event is about, and the size of the room's roster.\<close>

definition room_id :: "jsval \<Rightarrow> string" where
  "room_id args = (case get args ''GameId'' of Inr g \<Rightarrow> to_string g | Inl e \<Rightarrow> [])"

definition roster_size :: "host \<Rightarrow> store \<Rightarrow> string \<Rightarrow> int option" where
  "roster_size h s gid =
     (case room_field h s gid ''Actors'' of
        None \<Rightarrow> None
      | Some roster \<Rightarrow> (case keys_length roster of Inr (JNum n) \<Rightarrow> Some n | _ \<Rightarrow> None))"

text \<open>A run as seen from outside: what the handler returned or threw, and one group.\<close>

fun observe :: "string \<Rightarrow> (exn + result) \<times> store \<Rightarrow> (exn + result) \<times> (string \<times> stored) list option" where
  "observe gid (r, s) = (r, map_of (groups s) gid)"

definition failed :: "int \<Rightarrow> string \<Rightarrow> exn + result" where
  "failed code msg = Inr \<lparr>ResultCode = code, Message = msg, State = None\<rparr>"

section \<open>Scenarios\<close>

text \<open>
  Two players whose game lists exist (\<^verbatim>\<open>handlers.InitGameList\<close> creates them) and no
  room yet. The host's parser is never asked in these runs.
\<close>

definition host_of :: "string \<Rightarrow> string \<Rightarrow> host" where
  "host_of uid t =
     \<lparr>currentPlayerId = JStr uid, now = t, random = ''0.5'', titleId = JStr ''T1'',
      scriptVersion = JNum 1, scriptRevision = JNum 1, serverVersion = JStr ''1'',
      JSON_parse = (\<lambda>_. None), str_num = (\<lambda>_. None)\<rparr>"

definition no_rooms :: store where
  "no_rooms = \<lparr>groups = [(''U1_GamesList'', []), (''U2_GamesList'', [])], title = []\<rparr>"

definition event :: "string \<Rightarrow> string \<Rightarrow> int \<Rightarrow> (string \<times> jsval) list \<Rightarrow> jsval" where
  "event ty uid nr extra =
     JObj ([(''AppId'', JStr ''app''), (''AppVersion'', JStr ''1''), (''Region'', JStr ''eu''),
            (''GameId'', JStr ''G1''), (''Type'', JStr ty), (''ActorNr'', JNum nr),
                        (''UserId'', JStr uid), (''Nickname'', JStr uid)] @ extra)"

definition room_event :: "string \<Rightarrow> int \<Rightarrow> (string \<times> jsval) list \<Rightarrow> jsval" where
  "room_event ty n extra =
     JObj ([(''AppId'', JStr ''app''), (''AppVersion'', JStr ''1''), (''Region'', JStr ''eu''),
            (''GameId'', JStr ''G1''), (''Type'', JStr ty), (''ActorCount'', JNum n)] @ extra)"

definition create_event :: "int \<Rightarrow> int \<Rightarrow> jsval" where
  "create_event maxPlayers ttl =
     event ''Create'' ''U1'' 1
       [(''CreateOptions'', JObj [(''MaxPlayers'', JNum maxPlayers), (''PlayerTTL'', JNum ttl),
                                  (''CheckUserOnJoin'', JBool False)])]"

text \<open>
  The record of room \<open>G1\<close> as \<open>U1\<close>'s Create event leaves it, with a given
  roster and next actor number, and a store that holds it.
\<close>

definition actor :: "string \<Rightarrow> bool \<Rightarrow> jsval" where
  "actor uid inactive = JObj [(''UserId'', JStr uid), (''Inactive'', JBool inactive)]"

definition room_record :: "int \<Rightarrow> int \<Rightarrow> (string \<times> jsval) list \<Rightarrow> int \<Rightarrow> (string \<times> stored) list" where
  "room_record maxPlayers ttl actors next =
     [(''Env'', Enc (JObj [(''Region'', JStr ''eu''), (''AppVersion'', JStr ''1''), (''AppId'', JStr ''app''),
         (''TitleId'', JStr ''T1''), (''CloudScriptVersion'', JNum 1), (''CloudScriptRevision'', JNum 1),
         (''PlayFabServerVersion'', JStr ''1''), (''WebhooksVersion'', JStr ''1.2'')])),
      (''RoomOptions'', Enc (JObj [(''MaxPlayers'', JNum maxPlayers), (''PlayerTTL'', JNum ttl),
                                  (''CheckUserOnJoin'', JBool False)])),
      (''Creation'', Enc (JObj [(''Timestamp'', JStr ''t1''), (''UserId'', JStr ''U1''), (''Type'', JStr ''Create'')])),
      (''Actors'', Enc (JObj actors)),
      (''NextActorNr'', Enc (JNum next))]"

definition with_room :: "(string \<times> stored) list \<Rightarrow> store" where
  "with_room r =
     \<lparr>groups = [(''U1_GamesList'', [(''G1'', Enc (JObj []))]), (''U2_GamesList'', []), (''G1'', r)],
      title = []\<rparr>"

definition leave_log :: "string \<Rightarrow> jsval \<Rightarrow> (string \<times> stored) list" where
  "leave_log t canRejoin =
     [(''LeaveEvents'', Enc (JObj [(t, JObj [(''ActorNr'', JNum 1), (''UserId'', JStr ''U1''),
                                           (''CanRejoin'', canRejoin)])]))]"

text \<open>The entry of \<open>U1\<close>'s game list after a Save of the room with the state \<open>payload\<close>.\<close>

definition saved_entry :: "jsval \<Rightarrow> stored" where
  "saved_entry payload = Enc (JObj
     [(''Env'', JObj [(''Region'', JStr ''eu''), (''AppVersion'', JStr ''1''), (''AppId'', JStr ''app''),
         (''TitleId'', JStr ''T1''), (''CloudScriptVersion'', JNum 1), (''CloudScriptRevision'', JNum 1),
         (''PlayFabServerVersion'', JStr ''1''), (''WebhooksVersion'', JStr ''1.2'')]),
      (''RoomOptions'', JObj [(''MaxPlayers'', JNum 2), (''PlayerTTL'', JNum 0), (''CheckUserOnJoin'', JBool False)]),
      (''Creation'', JObj [(''Timestamp'', JStr ''t1''), (''UserId'', JStr ''U1''), (''Type'', JStr ''Create'')]),
      (''Actors'', JObj [(''1'', actor ''U1'' False)]),
      (''NextActorNr'', JNum 2),
      (''SaveEvents'', JObj [(''t2'', JObj [(''ActorCount'', JNum 1)])]),
      (''State'', payload)])"

definition saved :: "jsval \<Rightarrow> store" where
  "saved payload =
     \<lparr>groups = [(''U1_GamesList'', [(''G1'', saved_entry payload)]), (''U2_GamesList'', [])], title = []\<rparr>"


section \<open>What a run may throw and may change\<close>

definition code_of :: "exn \<Rightarrow> int" where
  "code_of e = (case e of PhotonException c m \<Rightarrow> c | _ \<Rightarrow> - 1)"

definition raises :: "int set \<Rightarrow> 'a run \<Rightarrow> bool" where
  "raises S m = (\<forall>s e s'. m s = (Inl e, s') \<longrightarrow> code_of e \<in> insert (- 1) S)"



section \<open>The numbering of actors\<close>




definition roster :: "host \<Rightarrow> store \<Rightarrow> string \<Rightarrow> string list option" where
  "roster h s gid = (case room_field h s gid ''Actors'' of Some (JObj kvs) \<Rightarrow> Some (map fst kvs) | _ \<Rightarrow> None)"




section \<open>Reasoning about runs\<close>

lemma ret_Inr: "ret x s = (Inr y, s') \<longleftrightarrow> y = x \<and> s' = s"
  by (auto simp: ret_def)

lemma throw_Inr: "throw e s = (Inr y, s') \<longleftrightarrow> False"
  by (simp add: throw_def)

lemma lift_Inr: "lift r s = (Inr v, s') \<longleftrightarrow> r = Inr v \<and> s' = s"
  by (cases r) (auto simp: lift_def ret_def throw_def)

lemma field_Inr: "field ob k s = (Inr v, s') \<longleftrightarrow> get ob k = Inr v \<and> s' = s"
  by (simp add: field_def lift_Inr)

lemma bnd_InrE:
  assumes "bnd m f s = (Inr y, s')"
  obtains x s1 where "m s = (Inr x, s1)" "f x s1 = (Inr y, s')"
  using assms by (auto simp: bnd_def split: prod.splits sum.splits)

lemma bnd_Inr_iff:
  "bnd m f s = (Inr y, s') \<longleftrightarrow> (\<exists>x s1. m s = (Inr x, s1) \<and> f x s1 = (Inr y, s'))"
  by (auto simp: bnd_def split: prod.splits sum.splits)

lemma seq_Inr_iff:
  "seq m n s = (Inr y, s') \<longleftrightarrow> (\<exists>s1. m s = (Inr (), s1) \<and> n s1 = (Inr y, s'))"
  by (simp add: seq_def bnd_Inr_iff)

lemma seq_InrE:
  assumes "seq m n s = (Inr y, s')"
  obtains s1 where "m s = (Inr (), s1)" "n s1 = (Inr y, s')"
  using assms by (auto simp: seq_def elim!: bnd_InrE)

lemma when_do_InrE:
  assumes "when_do b m s = (Inr u, s')"
  obtains "b" "m s = (Inr u, s')" | "\<not> b" "s' = s"
  using assms by (auto simp: when_do_def ret_def split: if_splits)

lemma throw_photon_Inr: "throw_photon h c msg t d s = (Inr y, s') \<longleftrightarrow> False"
  by (auto simp: throw_photon_def throw_def logException_def server_SetTitleData_def bnd_def)

lemma when_throw_Inr:
  "when_do b (throw_photon h c msg t d) s = (Inr u, s') \<longleftrightarrow> \<not> b \<and> s' = s"
  by (auto simp: when_do_def ret_def throw_photon_Inr)

lemma missing_Inr:
  "missing h args name t s = (Inr u, s') \<longleftrightarrow>
     (\<exists>v. get args name = Inr v \<and> \<not> undefinedOrNull v) \<and> s' = s"
  by (auto simp: missing_def bnd_Inr_iff field_Inr when_throw_Inr)

lemma strict_eq_JStr: "strict_eq v (JStr x) \<longleftrightarrow> v = JStr x"
  by (cases v) auto

lemma strict_eq_JNum: "strict_eq v (JNum x) \<longleftrightarrow> v = JNum x"
  by (cases v) auto

lemma check_type_Close:
  assumes "check_type h args (JStr ''Close'') t s = (Inr u, s')"
  shows "get args ''ActorCount'' = Inr (JNum 0) \<and> s' = s"
  using assms unfolding check_type_def
  by (auto elim!: bnd_InrE simp: field_Inr when_throw_Inr strict_eq_JNum)

lemma check_count_Inr:
  assumes "check_count h args t s = (Inr u, s')"
  shows "s' = s"
  using assms unfolding check_count_def
  by (auto elim!: bnd_InrE seq_InrE simp: field_Inr when_throw_Inr missing_Inr ret_Inr split: if_splits)

lemma checkWebhookArgs_Close:
  assumes "checkWebhookArgs h args t s = (Inr u, s')"
    and "get args ''Type'' = Inr (JStr ''Close'')"
  shows "get args ''ActorCount'' = Inr (JNum 0) \<and> s' = s"
proof -
  from assms(1) obtain s1 s2 where
    a: "(if \<not> strict_eq (JStr ''Close'') (JStr ''Close'') \<and> \<not> strict_eq (JStr ''Close'') (JStr ''Save'')
          then check_actor h args t else check_count h args t) s1 = (Inr (), s2)"
    and b: "check_type h args (JStr ''Close'') t s2 = (Inr u, s')" and c: "s1 = s"
    unfolding checkWebhookArgs_def using assms(2)
    by (auto elim!: seq_InrE bnd_InrE simp: missing_Inr field_Inr)
  from a have "s2 = s1" by (simp add: check_count_Inr)
  with b c show ?thesis by (auto dest: check_type_Close)
qed



lemma raisesD: "raises S m \<Longrightarrow> m s = (Inl e, s') \<Longrightarrow> code_of e \<in> insert (- 1) S"
  unfolding raises_def by blast


lemma raises_ret: "raises S (ret x)"
  by (simp add: raises_def ret_def)

lemma raises_bnd: "raises S m \<Longrightarrow> (\<And>x. raises S (f x)) \<Longrightarrow> raises S (bnd m f)"
  unfolding raises_def bnd_def by (fastforce split: prod.splits sum.splits)

lemma raises_seq: "raises S m \<Longrightarrow> raises S n \<Longrightarrow> raises S (seq m n)"
  by (simp add: seq_def raises_bnd)

lemma raises_if: "(b \<Longrightarrow> raises S m) \<Longrightarrow> (\<not> b \<Longrightarrow> raises S n) \<Longrightarrow> raises S (if b then m else n)"
  by simp

lemma raises_when_do: "raises S m \<Longrightarrow> raises S (when_do b m)"
  by (simp add: when_do_def raises_ret)

lemma raises_lift: "(\<And>e. r = Inl e \<Longrightarrow> code_of e = - 1) \<Longrightarrow> raises S (lift r)"
  by (cases r) (auto simp: lift_def raises_def ret_def throw_def)

lemma get_code: "get ob k = Inl e \<Longrightarrow> code_of e = - 1"
  by (auto simp: get_def TypeError_def code_of_def split: if_splits option.splits jsval.splits)

lemma put_code: "put ob k v = Inl e \<Longrightarrow> code_of e = - 1"
  by (auto simp: put_def TypeError_def code_of_def split: jsval.splits)

lemma delete_prop_code: "delete_prop ob k = Inl e \<Longrightarrow> code_of e = - 1"
  by (auto simp: delete_prop_def TypeError_def code_of_def split: jsval.splits)

lemma hasOwnProperty_code: "hasOwnProperty ob k = Inl e \<Longrightarrow> code_of e = - 1"
  by (auto simp: hasOwnProperty_def TypeError_def code_of_def split: if_splits)

lemma keys_length_code: "keys_length ob = Inl e \<Longrightarrow> code_of e = - 1"
  by (auto simp: keys_length_def TypeError_def code_of_def split: if_splits)

lemma parse_fields_code: "parse_fields h g = Inl e \<Longrightarrow> code_of e = - 1"
  by (induction g) (auto simp: parse_stored_def code_of_def split: sum.splits stored.splits option.splits)

lemmas lift_codes = get_code put_code delete_prop_code hasOwnProperty_code keys_length_code parse_fields_code

lemma raises_field: "raises S (field ob k)"
  by (simp add: field_def raises_lift get_code)

lemma raises_throw_photon: "c \<in> S \<Longrightarrow> raises S (throw_photon h c msg t d)"
  unfolding throw_photon_def logException_def server_SetTitleData_def
  by (auto simp: raises_def bnd_def throw_def code_of_def)

lemma raises_missing: "1 \<in> S \<Longrightarrow> raises S (missing h args name t)"
  unfolding missing_def by (intro raises_bnd raises_field raises_when_do raises_throw_photon)

lemma raises_server_UpdateSharedGroupData: "raises S (server_UpdateSharedGroupData gid es)"
  by (auto simp: raises_def server_UpdateSharedGroupData_def code_of_def split: option.splits)

lemma raises_server_GetSharedGroupData: "raises S (server_GetSharedGroupData gid ks)"
  by (auto simp: raises_def server_GetSharedGroupData_def code_of_def split: option.splits)

lemma raises_deleteSharedGroup: "raises S (deleteSharedGroup gid)"
  by (auto simp: raises_def deleteSharedGroup_def server_DeleteSharedGroup_def code_of_def split: option.splits)

lemma raises_createSharedGroup: "raises S (createSharedGroup gid)"
  by (auto simp: raises_def createSharedGroup_def server_CreateSharedGroup_def code_of_def split: option.splits)

lemma raises_updateSharedGroupData: "raises S (updateSharedGroupData gid data)"
  unfolding updateSharedGroupData_def Let_def
  by (intro raises_seq raises_server_UpdateSharedGroupData raises_ret)

lemma raises_updateSharedGroupEntry: "raises S (updateSharedGroupEntry gid key val)"
  unfolding updateSharedGroupEntry_def
  by (intro raises_bnd raises_updateSharedGroupData raises_ret)

lemma raises_deleteSharedGroupEntry: "raises S (deleteSharedGroupEntry gid key)"
  by (simp add: deleteSharedGroupEntry_def raises_updateSharedGroupEntry)

lemma raises_getSharedGroupData: "raises S (getSharedGroupData h gid keys)"
  unfolding getSharedGroupData_def
  by (intro raises_bnd raises_server_GetSharedGroupData raises_lift raises_ret) (rule parse_fields_code)

lemmas raises_intros =
  raises_ret raises_bnd raises_seq raises_if raises_when_do raises_field raises_throw_photon raises_missing
  raises_updateSharedGroupData raises_updateSharedGroupEntry raises_deleteSharedGroupEntry
  raises_getSharedGroupData raises_deleteSharedGroup raises_createSharedGroup

lemma raises_check_leave: "{1, 2} \<subseteq> S \<Longrightarrow> raises S (check_leave h args Type t)"
  unfolding check_leave_def
  by (intro raises_intros raises_lift; (auto; fail)?) (rule hasOwnProperty_code)

lemma raises_checkWebhookArgs: "raises {1, 2, 3} (checkWebhookArgs h args t)"
  unfolding checkWebhookArgs_def check_actor_def check_count_def check_type_def state_with_username_def
  by (intro raises_intros raises_check_leave; simp)





















lemma on_error_run:
  "\<exists>r. on_error e s = (Inr r, s) \<and> ResultCode r = code_of e \<and> State r = None \<and>
       (\<forall>c m. e = PhotonException c m \<longrightarrow> Message r = m)"
  by (cases e) (auto simp: on_error_def ret_def code_of_def)


lemma try_catch_Inr: "m s = (Inr x, s1) \<Longrightarrow> try_catch m h s = (Inr x, s1)"
  by (simp add: try_catch_def)

lemma throw_photon_run:
  "\<exists>s1. throw_photon h c msg t d s = (Inl (PhotonException c msg), s1) \<and> groups s1 = groups s"
  by (simp add: throw_photon_def logException_def server_SetTitleData_def bnd_def throw_def)


lemma bnd_throw_photon: "bnd (throw_photon h c msg t d) f s = throw_photon h c msg t d s"
  by (simp add: throw_photon_def logException_def server_SetTitleData_def bnd_def throw_def)


lemma get_defined: "get ob k = Inr v \<Longrightarrow> \<exists>w. get ob k' = Inr w"
  by (auto simp: get_def split: if_splits option.splits jsval.splits)

lemma try_catch_success:
  assumes "try_catch m on_error s = (Inr r, s')" "ResultCode r = 0" "raises S m" "0 \<notin> S"
  shows "m s = (Inr r, s')"
proof (cases "m s")
  case (Pair x s1)
  show ?thesis
  proof (cases x)
    case (Inl e)
    with Pair have "m s = (Inl e, s1)" by simp
    from raisesD[OF assms(3) this] assms(4) have "code_of e \<noteq> 0" by auto
    moreover from Pair Inl assms(1) have "on_error e s1 = (Inr r, s')" by (simp add: try_catch_def)
    ultimately show ?thesis using assms(2) on_error_run[of e s1] by auto
  next
    case (Inr y)
    with Pair assms(1) show ?thesis by (simp add: try_catch_def)
  qed
qed

lemma raises_subset: "raises S m \<Longrightarrow> S \<subseteq> T \<Longrightarrow> raises T m"
  by (auto simp: raises_def)

lemma parse_fields_map_of:
  "parse_fields h g = Inr kvs \<Longrightarrow>
   map_of kvs k = (case map_of g k of None \<Rightarrow> None
                   | Some v \<Rightarrow> (case parse_stored h v of Inl e \<Rightarrow> None | Inr j \<Rightarrow> Some j))"
proof (induction g arbitrary: kvs)
  case Nil
  then show ?case by simp
next
  case (Cons p g)
  obtain k' v' where p: "p = (k', v')" by (cases p)
  with Cons.prems obtain j js where j: "parse_stored h v' = Inr j" "parse_fields h g = Inr js" "kvs = (k', j) # js"
    by (auto split: sum.splits)
  with Cons.IH[of js] p show ?case by simp
qed

lemma get_JObj: "get (JObj kvs) k = Inr (case map_of kvs k of Some v \<Rightarrow> v | None \<Rightarrow> Undefined)"
  by (simp add: get_def undefinedOrNull_def split: option.splits)

lemma getSharedGroupData_Inr:
  assumes "getSharedGroupData h gid None s = (Inr data, s')"
  shows "s' = s"
    and "get data k = Inr (case room_field h s (to_string gid) k of Some v \<Rightarrow> v | None \<Rightarrow> Undefined)"
    and "\<exists>kvs. data = JObj kvs"
proof -
  from assms obtain g kvs where g: "map_of (groups s) (to_string gid) = Some g"
    and kvs: "parse_fields h (AList.clearjunk g) = Inr kvs" and d: "data = JObj kvs" and s: "s' = s"
    unfolding getSharedGroupData_def server_GetSharedGroupData_def
    by (auto elim!: bnd_InrE simp: lift_Inr ret_Inr split: option.splits)
  show "s' = s" by fact
  show "\<exists>kvs. data = JObj kvs" using d by blast
  have "map_of kvs k = room_field h s (to_string gid) k"
    using parse_fields_map_of[OF kvs, of k] g by (simp add: room_field_def map_of_clearjunk)
  then show "get data k = Inr (case room_field h s (to_string gid) k of Some v \<Rightarrow> v | None \<Rightarrow> Undefined)"
    by (simp add: d get_JObj)
qed

lemma keys_length_Inr: "keys_length ob = Inr c \<Longrightarrow> ob \<noteq> Undefined \<and> (\<exists>n. c = JNum n)"
  by (auto simp: keys_length_def undefinedOrNull_def split: if_splits)

lemma strict_eq_JNum_left: "strict_eq (JNum n) v \<longleftrightarrow> v = JNum n"
  by auto

lemma present_iff: "present args k \<longleftrightarrow> (\<exists>v. get args k = Inr v \<and> \<not> undefinedOrNull v)"
  by (auto simp: present_def split: sum.splits)

lemma missing_present: "missing h args name t s = (Inr u, s') \<longleftrightarrow> present args name \<and> s' = s"
  by (simp add: missing_Inr present_iff)

lemma hasOwnProperty_map_of:
  "map_of (own ob) k = Some v \<Longrightarrow> \<not> undefinedOrNull ob \<Longrightarrow> hasOwnProperty ob k = Inr True"
  by (auto simp: hasOwnProperty_def dest!: map_of_SomeD intro: rev_image_eqI)

lemma get_map_of:
  "map_of (own ob) k = Some v \<Longrightarrow> \<not> undefinedOrNull ob \<Longrightarrow> get ob k = Inr v"
  by (simp add: get_def)

section \<open>The scenarios of the specification, run\<close>

lemma create_builds_room:
  "observe ''G1'' (RoomCreated (host_of ''U1'' ''t1'') (create_event 2 1000) no_rooms) =
     (Inr OK, Some (room_record 2 1000 [(''1'', actor ''U1'' False)] 2))"
  by code_simp

text \<open>
  The second step of the specification's scenario, as the relay sends it: a Join for the
  next actor number of a room below its capacity. The event has no \<^verbatim>\<open>RoomOptions\<close>,
  and the handler reads \<^verbatim>\<open>args.RoomOptions.MaxPlayers\<close>.
\<close>

lemma join_without_room_options:
  "observe ''G1'' (RoomJoined (host_of ''U2'' ''t2'') (event ''Join'' ''U2'' 2 [])
       (with_room (room_record 2 0 [(''1'', actor ''U1'' False)] 2))) =
     (failed (- 1) ''TypeError: Cannot read property MaxPlayers of undefined'',
      Some (room_record 2 0 [(''1'', actor ''U1'' False)] 2))"
  by code_simp

text \<open>
  C1 (the code departs from the claim). A room whose roster has as many entries as its
  \<^verbatim>\<open>RoomOptions.MaxPlayers\<close>, here one, receives a Join for its next actor number.
  The handler compares the roster with the \<^verbatim>\<open>RoomOptions.MaxPlayers\<close> of the event,
  not of the record: the event carries 2, the join is accepted, the roster has two
  entries and the next actor number is 3.
\<close>

theorem join_full_room_accepted:
  "observe ''G1'' (RoomJoined (host_of ''U2'' ''t2'')
       (event ''Join'' ''U2'' 2 [(''RoomOptions'', JObj [(''MaxPlayers'', JNum 2)])])
       (with_room (room_record 1 0 [(''1'', actor ''U1'' False)] 2))) =
     (Inr OK,
      Some (room_record 1 0 [(''1'', actor ''U1'' False), (''2'', actor ''U2'' False)] 3 @
            [(''JoinEvents'', Enc (JObj [(''t2'', JObj [(''ActorNr'', JNum 2), (''UserId'', JStr ''U2'')])]))]))"
  by code_simp

text \<open>
  C2 (the code departs from the claim). In a room with a player TTL of 1000, actor 1
  leaves with the inactive flag set and the slot is marked inactive. The Join of the
  same actor and user that follows reads \<^verbatim>\<open>data.ActiveActors\<close>, which no handler
  ever writes: it ends in a TypeError, result code -1, and the slot stays inactive.
\<close>

theorem rejoin_after_inactive_leave_fails:
  "RoomLeft (host_of ''U1'' ''t2'')
       (event ''LeaveRequest'' ''U1'' 1
          [(''IsInactive'', JBool True), (''Inactive'', JBool True), (''Reason'', JStr ''101'')])
       (with_room (room_record 2 1000 [(''1'', actor ''U1'' False)] 2)) =
     (Inr OK, with_room (room_record 2 1000 [(''1'', actor ''U1'' True)] 2 @ leave_log ''t2'' (JBool True)))
   \<and> observe ''G1'' (RoomJoined (host_of ''U1'' ''t3'') (event ''Join'' ''U1'' 1 [])
       (with_room (room_record 2 1000 [(''1'', actor ''U1'' True)] 2 @ leave_log ''t2'' (JBool True)))) =
     (failed (- 1) ''TypeError: Cannot read property 1 of undefined'',
      Some (room_record 2 1000 [(''1'', actor ''U1'' True)] 2 @ leave_log ''t2'' (JBool True)))"
  by code_simp

text \<open>
  C3 (the code departs from the claim). \<^verbatim>\<open>handlers.RoomCreated\<close> reads
  \<^verbatim>\<open>args.CreateOptions.MaxPlayers\<close> for its log line before its \<^verbatim>\<open>try\<close>. A Load
  event, which the validator accepts without \<^verbatim>\<open>CreateOptions\<close>, makes the handler
  throw a TypeError to its caller; so does a Create event without them, for which the
  validator has the typed error 1.
\<close>

theorem create_handler_throws:
  "fst (checkWebhookArgs (host_of ''U1'' ''t1'')
          (event ''Load'' ''U1'' 1 [(''CreateIfNotExists'', JBool True)]) (Some ''t1'') no_rooms) = Inr ()
   \<and> RoomCreated (host_of ''U1'' ''t1'') (event ''Load'' ''U1'' 1 [(''CreateIfNotExists'', JBool True)]) no_rooms =
     (Inl (TypeError ''Cannot read property MaxPlayers of undefined''), no_rooms)
   \<and> fst (checkWebhookArgs (host_of ''U1'' ''t1'') (event ''Create'' ''U1'' 1 []) (Some ''t1'') no_rooms) =
     Inl (PhotonException 1 ''Missing argument: CreateOptions'')
   \<and> RoomCreated (host_of ''U1'' ''t1'') (event ''Create'' ''U1'' 1 []) no_rooms =
     (Inl (TypeError ''Cannot read property MaxPlayers of undefined''), no_rooms)"
  by code_simp

text \<open>
  C4 (the code departs from the claim). The validator requires the inactive flag of a
  leave event as \<^verbatim>\<open>IsInactive\<close>; the handler decides on \<^verbatim>\<open>args.Inactive\<close>. A leave
  event whose inactive flag is true, as the validator wants it, is handled as a final
  leave: the roster entry and the player's index entry are deleted. An event that has
  the flag as \<^verbatim>\<open>Inactive\<close> only does not pass the validator.
\<close>

theorem inactive_leave_removes_slot:
  "RoomLeft (host_of ''U1'' ''t2'')
       (event ''LeaveRequest'' ''U1'' 1 [(''IsInactive'', JBool True), (''Reason'', JStr ''101'')])
       (with_room (room_record 2 1000 [(''1'', actor ''U1'' False)] 2)) =
     (Inr OK,
      \<lparr>groups = [(''U1_GamesList'', []), (''U2_GamesList'', []),
                 (''G1'', room_record 2 1000 [] 2 @ leave_log ''t2'' Undefined)],
       title = []\<rparr>)
   \<and> observe ''G1'' (RoomLeft (host_of ''U1'' ''t2'')
       (event ''LeaveRequest'' ''U1'' 1 [(''Inactive'', JBool True), (''Reason'', JStr ''101'')])
       (with_room (room_record 2 1000 [(''1'', actor ''U1'' False)] 2))) =
     (failed 1 ''Missing argument: IsInactive'', Some (room_record 2 1000 [(''1'', actor ''U1'' False)] 2))"
  by code_simp

text \<open>
  C5 (the code departs from the claim). The handler lets an inactive slot leave when
  \<^verbatim>\<open>args.Type\<close> equals \<^verbatim>\<open>LeaveReason.PlayerTtlTimedOut\<close>, which is the code
  \<^verbatim>\<open>'102'\<close>, while the type of such an event is the name \<^verbatim>\<open>'PlayerTtlTimedOut'\<close>.
  The leave of an inactive slot for the player TTL timeout is rejected.
\<close>

theorem ttl_leave_of_inactive_slot_rejected:
  "observe ''G1'' (RoomLeft (host_of ''U1'' ''t3'')
       (event ''PlayerTtlTimedOut'' ''U1'' 1 [(''IsInactive'', JBool False), (''Reason'', JStr ''102'')])
       (with_room (room_record 2 1000 [(''1'', actor ''U1'' True)] 2))) =
     (failed 2 ''Inactive actors cant leave'', Some (room_record 2 1000 [(''1'', actor ''U1'' True)] 2))"
  by code_simp

text \<open>
  C8 (the code departs from the claim). A Save stores the state in the creator's game
  list and deletes the room's group. The Load that follows reads
  \<^verbatim>\<open>getSharedGroupEntry\<close>, which returns the object that maps the room id to the
  entry, not the entry: \<^verbatim>\<open>data.Creation\<close> is undefined and the Load ends in a
  TypeError, result code -1, with no state, whether it may create the room or not.
\<close>

theorem load_after_save_fails:
  "RoomClosed (host_of ''U1'' ''t2'') (room_event ''Save'' 1 [(''State'', JStr ''payload'')])
       (with_room (room_record 2 0 [(''1'', actor ''U1'' False)] 2)) =
     (Inr OK, saved (JStr ''payload''))
   \<and> fst (RoomCreated (host_of ''U1'' ''t3'')
       (event ''Load'' ''U1'' 1 [(''CreateIfNotExists'', JBool False), (''CreateOptions'', JObj [])])
       (saved (JStr ''payload''))) =
     failed (- 1) ''TypeError: Cannot read property UserId of undefined''
   \<and> fst (RoomCreated (host_of ''U1'' ''t3'')
       (event ''Load'' ''U1'' 1 [(''CreateIfNotExists'', JBool True), (''CreateOptions'', JObj [])])
       (saved (JStr ''payload''))) =
     failed (- 1) ''TypeError: Cannot read property UserId of undefined''"
  by code_simp

lemma raises_RoomClosed_body: "raises {1, 2, 3, 6} (RoomClosed_body h args)"
  unfolding RoomClosed_body_def
  by (intro raises_intros raises_lift raises_subset[OF raises_checkWebhookArgs]; (simp; fail)?)
     (auto dest: lift_codes)

text \<open>
  C10. A Close event that returns success met a roster of size zero: the validator
  accepted its actor count, which is then exactly 0, and the handler found as many
  actors in the room's record.
\<close>

theorem close_only_empty_room:
  assumes "RoomClosed h args s = (Inr r, s')"
    and "ResultCode r = 0"
    and "get args ''Type'' = Inr (JStr ''Close'')"
  shows "get args ''ActorCount'' = Inr (JNum 0) \<and> roster_size h s (room_id args) = Some 0"
proof -
  from assms(1) obtain g where g: "get args ''GameId'' = Inr g"
    and t: "try_catch (RoomClosed_body h args) on_error s = (Inr r, s')"
    unfolding RoomClosed_def by (auto elim!: bnd_InrE simp: field_Inr)
  have body: "RoomClosed_body h args s = (Inr r, s')"
    by (rule try_catch_success[OF t assms(2) raises_RoomClosed_body]) simp
  then obtain s1 data A count C s2 s3
    where v: "checkWebhookArgs h args (Some (now h)) s = (Inr (), s1)"
      and d: "getSharedGroupData h g None s1 = (Inr data, s2)"
      and A: "get data ''Actors'' = Inr A"
      and n: "keys_length A = Inr count"
      and C: "get args ''ActorCount'' = Inr C"
      and eq: "when_do (\<not> strict_eq count C)
            (throw_photon h 6 ''Actors count does not match'' (Some (now h))
               (JObj [(''Webhook'', args), (''CustomState'', data)])) s2 = (Inr (), s3)"
    unfolding RoomClosed_body_def using g
    by (auto elim!: seq_InrE bnd_InrE simp: field_Inr lift_Inr)
  from checkWebhookArgs_Close[OF v assms(3)] have c0: "get args ''ActorCount'' = Inr (JNum 0)" and s1: "s1 = s"
    by simp_all
  from keys_length_Inr[OF n] obtain k where A0: "A \<noteq> Undefined" and k: "count = JNum k" by blast
  from eq C c0 k have k0: "k = 0" by (auto simp: when_throw_Inr)
  from getSharedGroupData_Inr(2)[OF d, of "''Actors''"] A A0 s1
  have "room_field h s (to_string g) ''Actors'' = Some A" by (auto split: option.splits)
  with n k k0 g have "roster_size h s (room_id args) = Some 0"
    by (simp add: roster_size_def room_id_def)
  with c0 show ?thesis by simp
qed


theorem close_only_empty_room_witness:
  "RoomClosed (host_of ''U1'' ''t3'') (room_event ''Close'' 0 []) (with_room (room_record 2 0 [] 3)) =
     (Inr OK, no_rooms)
   \<and> roster_size (host_of ''U1'' ''t3'') (with_room (room_record 2 0 [] 3))
       (room_id (room_event ''Close'' 0 [])) = Some 0"
proof -
  have run: "RoomClosed (host_of ''U1'' ''t3'') (room_event ''Close'' 0 []) (with_room (room_record 2 0 [] 3)) =
     (Inr OK, no_rooms)"
    by code_simp
  have ok: "ResultCode OK = 0"
    by (simp add: OK_def)
  have ty: "get (room_event ''Close'' 0 []) ''Type'' = Inr (JStr ''Close'')"
    by code_simp
  from close_only_empty_room[OF run ok ty] run show ?thesis by simp
qed




lemma LeaveReason_defined: "\<not> undefinedOrNull LeaveReason"
  by (simp add: LeaveReason_def undefinedOrNull_def)

lemma leave_type_names:
  assumes "map_of (own LeaveReason) ty = Some c"
  shows "ty \<in> set [''ClientDisconnect'', ''ClientTimeoutDisconnect'', ''ManagedDisconnect'',
      ''ServerDisconnect'', ''TimeoutDisconnect'', ''ConnectTimeout'', ''SwitchRoom'', ''LeaveRequest'',
      ''PlayerTtlTimedOut'', ''PeerLastTouchTimedout'', ''PluginRequest'', ''PluginFailedJoin'']"
  using map_of_SomeD[OF assms] by (auto simp: LeaveReason_def)

lemma check_leave_iff:
  assumes "map_of (own LeaveReason) ty = Some (JStr code)"
  shows "check_leave h args (JStr ty) t s = (Inr (), s') \<longleftrightarrow>
     present args ''IsInactive'' \<and> get args ''Reason'' = Inr (JStr code) \<and>
     code \<notin> set [''1'', ''100'', ''103'', ''105''] \<and> s' = s"
proof -
  note own = hasOwnProperty_map_of[OF assms LeaveReason_defined]
  note code = get_map_of[OF assms LeaveReason_defined]
  show ?thesis
    unfolding check_leave_def
    apply (simp add: bnd_Inr_iff seq_Inr_iff lift_Inr own code field_Inr missing_Inr when_throw_Inr present_iff)
    apply (rule iffI)
     apply (elim exE conjE)
     apply (simp add: eq_commute[of _ code])
    apply (rule exI[of _ True])
    apply (simp add: undefinedOrNull_def eq_commute[of _ code])
    done
qed


lemma check_actor_iff:
  "check_actor h args t s = (Inr (), s') \<longleftrightarrow>
     present args ''ActorNr'' \<and> present args ''UserId'' \<and>
     (\<exists>u. get args ''UserId'' = Inr u \<and> strict_eq u (currentPlayerId h)) \<and>
     (present args ''Username'' \<or> present args ''Nickname'') \<and> s' = s"
proof
  assume "check_actor h args t s = (Inr (), s')"
  then show "present args ''ActorNr'' \<and> present args ''UserId'' \<and>
     (\<exists>u. get args ''UserId'' = Inr u \<and> strict_eq u (currentPlayerId h)) \<and>
     (present args ''Username'' \<or> present args ''Nickname'') \<and> s' = s"
    unfolding check_actor_def
    by (auto simp: bnd_Inr_iff seq_Inr_iff field_Inr missing_Inr when_throw_Inr present_iff)
next
  assume a: "present args ''ActorNr'' \<and> present args ''UserId'' \<and>
     (\<exists>u. get args ''UserId'' = Inr u \<and> strict_eq u (currentPlayerId h)) \<and>
     (present args ''Username'' \<or> present args ''Nickname'') \<and> s' = s"
  then obtain u where u: "get args ''UserId'' = Inr u" "strict_eq u (currentPlayerId h)" by blast
  from get_defined[OF u(1)] obtain un nn where
    n: "get args ''Username'' = Inr un" "get args ''Nickname'' = Inr nn" by blast
  with a u show "check_actor h args t s = (Inr (), s')"
    unfolding check_actor_def
    by (auto simp: bnd_Inr_iff seq_Inr_iff field_Inr missing_Inr when_throw_Inr present_iff)
qed

lemma leave_type_not_other:
  assumes "map_of (own LeaveReason) ty = Some c"
  shows "ty \<notin> set [''Load'', ''Create'', ''Join'', ''Player'', ''Game'', ''Event'', ''Save'', ''Close'', ''Leave'']"
proof -
  from leave_type_names[OF assms] consider
      "ty = ''ClientDisconnect''" | "ty = ''ClientTimeoutDisconnect''" | "ty = ''ManagedDisconnect''"
    | "ty = ''ServerDisconnect''" | "ty = ''TimeoutDisconnect''" | "ty = ''ConnectTimeout''"
    | "ty = ''SwitchRoom''" | "ty = ''LeaveRequest''" | "ty = ''PlayerTtlTimedOut''"
    | "ty = ''PeerLastTouchTimedout''" | "ty = ''PluginRequest''" | "ty = ''PluginFailedJoin''"
    by force
  then show ?thesis by cases simp_all
qed


text \<open>
  C9, as the claim states it, fails: the reason codes that are rejected although they
  match their type are four, not three.
\<close>

theorem four_reason_codes_rejected:
  "list_all (\<lambda>(ty, reason).
       fst (checkWebhookArgs (host_of ''U1'' ''t3'')
              (event ty ''U1'' 1 [(''IsInactive'', JBool False), (''Reason'', JStr reason)])
              (Some ''t3'') no_rooms) =
       Inl (PhotonException 2 ''Unexpected LeaveReason''))
     [(''ClientTimeoutDisconnect'', ''1''), (''SwitchRoom'', ''100''),
      (''PeerLastTouchTimedout'', ''103''), (''PluginFailedJoin'', ''105'')]"
  by code_simp

text \<open>
  C9, amended. For an event whose type is a key of \<^verbatim>\<open>LeaveReason\<close>, the validator
  succeeds exactly if the common arguments and the acting player are there (application
  id and version, region, room id, actor number, a user id equal to the caller, a user
  name or nickname), the inactive flag \<^verbatim>\<open>IsInactive\<close> is there, the reason is the
  code of the type, and that code is none of the four codes 1, 100, 103 and 105.
\<close>

theorem leave_validation:
  assumes ty: "get args ''Type'' = Inr (JStr ty)"
    and code: "map_of (own LeaveReason) ty = Some (JStr code)"
  shows "checkWebhookArgs h args t s = (Inr (), s) \<longleftrightarrow>
     present args ''AppId'' \<and> present args ''AppVersion'' \<and> present args ''Region'' \<and>
     present args ''GameId'' \<and> present args ''ActorNr'' \<and> present args ''UserId'' \<and>
     (\<exists>u. get args ''UserId'' = Inr u \<and> strict_eq u (currentPlayerId h)) \<and>
     (present args ''Username'' \<or> present args ''Nickname'') \<and>
     present args ''IsInactive'' \<and> get args ''Reason'' = Inr (JStr code) \<and>
     code \<notin> set [''1'', ''100'', ''103'', ''105'']"
proof -
  from leave_type_not_other[OF code]
  have sw: "check_type h args (JStr ty) t = check_leave h args (JStr ty) t"
    and act: "ty \<noteq> ''Close''" "ty \<noteq> ''Save''"
    by (simp_all add: check_type_def)
  have p: "present args ''Type''"
    using ty by (simp add: present_def undefinedOrNull_def)
  have "checkWebhookArgs h args t s = (Inr (), s) \<longleftrightarrow>
     present args ''AppId'' \<and> present args ''AppVersion'' \<and> present args ''Region'' \<and>
     present args ''GameId'' \<and> check_actor h args t s = (Inr (), s) \<and>
     check_leave h args (JStr ty) t s = (Inr (), s)"
    unfolding checkWebhookArgs_def
    by (simp add: seq_Inr_iff bnd_Inr_iff missing_present field_Inr ty sw act p
        check_actor_iff check_leave_iff[OF code])
  then show ?thesis
    by (simp add: check_actor_iff check_leave_iff[OF code])
qed

theorem leave_validation_witness:
  "checkWebhookArgs (host_of ''U1'' ''t3'')
     (event ''LeaveRequest'' ''U1'' 1 [(''IsInactive'', JBool False), (''Reason'', JStr ''101'')])
     (Some ''t3'') no_rooms = (Inr (), no_rooms)
   \<and> fst (checkWebhookArgs (host_of ''U1'' ''t3'')
     (event ''LeaveRequest'' ''U1'' 1 [(''IsInactive'', JBool False), (''Reason'', JStr ''0'')])
     (Some ''t3'') no_rooms) = Inl (PhotonException 2 ''Reason code does not match Leave Type string'')"
proof -
  let ?ok = "event ''LeaveRequest'' ''U1'' 1 [(''IsInactive'', JBool False), (''Reason'', JStr ''101'')]"
  have ty: "get ?ok ''Type'' = Inr (JStr ''LeaveRequest'')"
    by code_simp
  have code: "map_of (own LeaveReason) ''LeaveRequest'' = Some (JStr ''101'')"
    by code_simp
  have rhs: "present ?ok ''AppId'' \<and> present ?ok ''AppVersion'' \<and> present ?ok ''Region'' \<and>
     present ?ok ''GameId'' \<and> present ?ok ''ActorNr'' \<and> present ?ok ''UserId'' \<and>
     (\<exists>u. get ?ok ''UserId'' = Inr u \<and> strict_eq u (currentPlayerId (host_of ''U1'' ''t3''))) \<and>
     (present ?ok ''Username'' \<or> present ?ok ''Nickname'') \<and>
     present ?ok ''IsInactive'' \<and> get ?ok ''Reason'' = Inr (JStr ''101'') \<and>
     ''101'' \<notin> set [''1'', ''100'', ''103'', ''105'']"
    by (simp add: present_def event_def get_def undefinedOrNull_def host_of_def)
  have bad: "fst (checkWebhookArgs (host_of ''U1'' ''t3'')
     (event ''LeaveRequest'' ''U1'' 1 [(''IsInactive'', JBool False), (''Reason'', JStr ''0'')])
     (Some ''t3'') no_rooms) = Inl (PhotonException 2 ''Reason code does not match Leave Type string'')"
    by code_simp
  from leave_validation[OF ty code, of "host_of ''U1'' ''t3''" "Some ''t3''" no_rooms] rhs bad
  show ?thesis by simp
qed


lemma put_Inr_own:
  assumes "put ob k v = Inr ob'" "get (JObj kvs) k' = Inr ob"
  shows "k' \<in> fst ` set kvs"
proof -
  from assms(1) have "ob \<noteq> Undefined" by (auto simp: put_def)
  with assms(2) obtain w where "map_of kvs k' = Some w"
    by (auto simp: get_JObj split: option.splits)
  then show ?thesis by (auto dest!: map_of_SomeD intro: rev_image_eqI)
qed




























































end
